theory Spec2Isabelle
  imports Main
begin

section \<open>Data model\<close>

text \<open>
  The enumerations of \<^verbatim>\<open>src/api/models/balance.py\<close> (lines 7-27). Each is a
  \<^verbatim>\<open>str, Enum\<close>; \<open>CurrencyType_value\<close> is the \<^verbatim>\<open>.value\<close> of a member, which
  the services splice into column and attribute names.
\<close>

datatype CurrencyType = WL | DL | BGL | RUPIAH

fun CurrencyType_value :: "CurrencyType \<Rightarrow> string" where
  "CurrencyType_value WL = ''wl''"
| "CurrencyType_value DL = ''dl''"
| "CurrencyType_value BGL = ''bgl''"
| "CurrencyType_value RUPIAH = ''idr''"

datatype TransactionType =
  ADD | SUBTRACT | CONVERT | DONATION | PURCHASE | REFUND | ADJUSTMENT

datatype TransactionStatus = PENDING | SUCCESS | FAILED | REVERSED | CANCELLED

text \<open>
  Exceptions are values. \<open>SqliteError\<close> is \<^verbatim>\<open>sqlite3.Error\<close> re-raised by
  \<^verbatim>\<open>execute_query\<close>; \<open>ValidationError\<close> is what a pydantic model raises when a field
  constraint or a \<^verbatim>\<open>@validator\<close> fails; the others are Python's built-in exceptions.
\<close>

datatype py_error = SqliteError | ValidationError | AttributeError | TypeError | ValueError

text \<open>
  The rows of the four tables, with the columns the queries of the services name.
  Timestamps are natural numbers (a later instant is a larger number). The integer
  columns are Python's unbounded integers. The repository creates none of these tables,
  so they carry no constraint here: no key makes an id unique and no check bounds a
  balance. A statement that the store refuses all the same is a fault of the schedule
  below. Every column holds a value, except \<^verbatim>\<open>growid\<close> and \<^verbatim>\<open>description\<close>, which
  may be \<^verbatim>\<open>NULL\<close>.
\<close>

record user_row =
  u_id :: string
  u_user_type :: string
  u_growid :: "string option"
  u_balance_wl :: int
  u_balance_dl :: int
  u_balance_bgl :: int
  u_balance_idr :: int
  u_updated_at :: nat
  u_updated_by :: string

record txn_row =
  t_id :: string
  t_user_id :: string
  t_user_type :: string
  t_currency_type :: CurrencyType
  t_transaction_type :: TransactionType
  t_amount :: int
  t_created_by :: string
  t_description :: "string option"
  t_status :: TransactionStatus
  t_timestamp :: nat

record rate_row =
  r_currency :: CurrencyType
  r_rate_rupiah :: int
  r_min_amount :: int
  r_max_amount :: int
  r_is_active :: bool
  r_updated_at :: nat
  r_updated_by :: string

record conv_row =
  c_id :: string
  c_user_id :: string
  c_from_currency :: CurrencyType
  c_to_currency :: CurrencyType
  c_amount :: int
  c_converted_amount :: int
  c_rate_used :: int
  c_timestamp :: nat
  c_status :: string
  c_metadata :: string

text \<open>
  The store behind \<^verbatim>\<open>DatabaseService\<close>: the four tables in insertion order, a
  schedule of storage faults, and the names of the Redis locks that are held at the
  moment, by this process or by another. Every call of \<^verbatim>\<open>execute_query\<close> takes the
  head of \<open>faults\<close>: \<open>True\<close> means that \<^verbatim>\<open>cursor.execute\<close> raises \<^verbatim>\<open>sqlite3.Error\<close>
  on this call, an empty schedule means that no further call fails.
\<close>

record db =
  users :: "user_row list"
  balance_transactions :: "txn_row list"
  conversion_rates :: "rate_row list"
  conversions :: "conv_row list"
  faults :: "bool list"
  locks :: "string list"

section \<open>DatabaseService.execute\_query\<close>

text \<open>
  \<^verbatim>\<open>src/api/service/database_service.py\<close>, lines 76-95. The SQL text and its
  parameters are the statement \<open>stmt\<close>, a function on the tables. On success a
  statement run with \<^verbatim>\<open>fetch=False\<close> is committed at once (line 90), so every write
  is durable on its own; on \<^verbatim>\<open>sqlite3.Error\<close> the failing statement is rolled back
  (line 94), which leaves the tables as they were, and the error is re-raised (line 95).
\<close>

definition execute_query :: "(db \<Rightarrow> 'a \<times> db) \<Rightarrow> db \<Rightarrow> (py_error + 'a) \<times> db" where
  "execute_query stmt s =
     (case faults s of
        [] \<Rightarrow> (case stmt s of (r, s') \<Rightarrow> (Inr r, s'))
      | f # fs \<Rightarrow>
          (if f then (Inl SqliteError, s\<lparr>faults := fs\<rparr>)
           else (case stmt (s\<lparr>faults := fs\<rparr>) of (r, s') \<Rightarrow> (Inr r, s'))))"

subsection \<open>The SQL statements of the services\<close>

text \<open>\<^verbatim>\<open>INSERT INTO balance_transactions (...) VALUES (...)\<close> (balance\_service.py:74-80).\<close>

definition sql_insert_transaction :: "txn_row \<Rightarrow> db \<Rightarrow> unit \<times> db" where
  "sql_insert_transaction row s =
     ((), s\<lparr>balance_transactions := balance_transactions s @ [row]\<rparr>)"

text \<open>
  \<^verbatim>\<open>UPDATE users SET balance_<c> = balance_<c> + ?, updated_at = ?, updated_by = ?
  WHERE id = ? AND user_type = ?\<close> (balance\_service.py:88-96), with \<^verbatim>\<open><c>\<close> the value
  of the request's currency: \<^verbatim>\<open>wl\<close>, \<^verbatim>\<open>dl\<close>, \<^verbatim>\<open>bgl\<close> or \<^verbatim>\<open>idr\<close>.
\<close>

fun add_to_balance :: "CurrencyType \<Rightarrow> int \<Rightarrow> user_row \<Rightarrow> user_row" where
  "add_to_balance WL d u = u\<lparr>u_balance_wl := u_balance_wl u + d\<rparr>"
| "add_to_balance DL d u = u\<lparr>u_balance_dl := u_balance_dl u + d\<rparr>"
| "add_to_balance BGL d u = u\<lparr>u_balance_bgl := u_balance_bgl u + d\<rparr>"
| "add_to_balance RUPIAH d u = u\<lparr>u_balance_idr := u_balance_idr u + d\<rparr>"

definition sql_update_balance ::
  "CurrencyType \<Rightarrow> int \<Rightarrow> nat \<Rightarrow> string \<Rightarrow> string \<Rightarrow> string \<Rightarrow> db \<Rightarrow> unit \<times> db" where
  "sql_update_balance c d at by uid utype s =
     ((), s\<lparr>users :=
        map (\<lambda>u. if u_id u = uid \<and> u_user_type u = utype
                  then (add_to_balance c d u)\<lparr>u_updated_at := at, u_updated_by := by\<rparr>
                  else u)
            (users s)\<rparr>)"

text \<open>\<^verbatim>\<open>UPDATE balance_transactions SET status = ? WHERE id = ?\<close> (balance\_service.py:132, 144).\<close>

definition sql_update_status :: "TransactionStatus \<Rightarrow> string \<Rightarrow> db \<Rightarrow> unit \<times> db" where
  "sql_update_status st tid s =
     ((), s\<lparr>balance_transactions :=
        map (\<lambda>t. if t_id t = tid then t\<lparr>t_status := st\<rparr> else t) (balance_transactions s)\<rparr>)"

text \<open>\<^verbatim>\<open>SELECT ... FROM users WHERE id = ? AND user_type = ?\<close> (balance\_service.py:30-43).\<close>

definition sql_select_user :: "string \<Rightarrow> string \<Rightarrow> db \<Rightarrow> user_row list \<times> db" where
  "sql_select_user uid utype s =
     (filter (\<lambda>u. u_id u = uid \<and> u_user_type u = utype) (users s), s)"

section \<open>DatabaseService.acquire\_lock\<close>

text \<open>
  \<^verbatim>\<open>src/api/service/database_service.py\<close>, lines 151-167. The function builds a Redis
  lock named \<^verbatim>\<open>lock:<key>\<close> and calls \<^verbatim>\<open>lock.acquire(blocking=True)\<close>. What that
  call of the Redis client does is not code of this repository, so its outcome is a
  parameter: it returns true, returns false, raises, or does not return. The function
  gives back the lock when the call returned true and \<^verbatim>\<open>None\<close> when it returned
  false or raised (lines 163-167); when the call does not return, neither does the
  function, which is the result \<open>None\<close> of the outer \<open>option\<close>. \<open>timeout\<close> is handed
  to Redis as the lifetime of the lock (line 160), not as a bound on the wait. The class
  has no function that releases a lock.
\<close>

datatype redis_acquire = Acquired | NotAcquired | RedisError | Blocked

definition acquire_lock ::
  "redis_acquire \<Rightarrow> string \<Rightarrow> nat \<Rightarrow> db \<Rightarrow> (string option \<times> db) option" where
  "acquire_lock outcome key timeout s =
     (case outcome of
        Acquired \<Rightarrow> Some (Some (''lock:'' @ key), s\<lparr>locks := (''lock:'' @ key) # locks s\<rparr>)
      | NotAcquired \<Rightarrow> Some (None, s)
      | RedisError \<Rightarrow> Some (None, s)
      | Blocked \<Rightarrow> None)"

section \<open>BalanceService\<close>

subsection \<open>The pydantic models of the balance\<close>

text \<open>
  \<^verbatim>\<open>Balance\<close> (models/balance.py:29-39): four integer fields, each \<^verbatim>\<open>ge=0\<close> and each
  checked again by \<^verbatim>\<open>validate_non_negative\<close> (\<^verbatim>\<open>"Balance cannot be negative"\<close>).
  Constructing it with a negative field raises.
\<close>

record Balance =
  wl_balance :: int
  dl_balance :: int
  bgl_balance :: int
  rupiah_balance :: int

definition Balance_init :: "int \<Rightarrow> int \<Rightarrow> int \<Rightarrow> int \<Rightarrow> py_error + Balance" where
  "Balance_init wl dl bgl idr =
     (if wl < 0 \<or> dl < 0 \<or> bgl < 0 \<or> idr < 0 then Inl ValidationError
      else Inr \<lparr>wl_balance = wl, dl_balance = dl, bgl_balance = bgl, rupiah_balance = idr\<rparr>)"

text \<open>
  \<^verbatim>\<open>BalanceResponse\<close> (models/balance.py:41-60). \<^verbatim>\<open>validate_growid\<close> rejects a
  discord user without a Growtopia id and a web user with one; \<^verbatim>\<open>not v\<close> holds for
  \<^verbatim>\<open>None\<close> and for the empty string.
\<close>

record BalanceResponse =
  br_user_id :: string
  br_user_type :: string
  br_growid :: "string option"
  br_balance :: Balance
  br_last_updated :: nat
  br_updated_by :: string

definition falsy :: "string option \<Rightarrow> bool" where
  "falsy v = (case v of None \<Rightarrow> True | Some g \<Rightarrow> g = [])"

definition BalanceResponse_init ::
  "string \<Rightarrow> string \<Rightarrow> string option \<Rightarrow> Balance \<Rightarrow> nat \<Rightarrow> string \<Rightarrow> py_error + BalanceResponse" where
  "BalanceResponse_init uid utype g b at by =
     (if utype = ''discord'' \<and> falsy g then Inl ValidationError
      else if utype = ''web'' \<and> \<not> falsy g then Inl ValidationError
      else Inr \<lparr>br_user_id = uid, br_user_type = utype, br_growid = g, br_balance = b,
                br_last_updated = at, br_updated_by = by\<rparr>)"

text \<open>\<^verbatim>\<open>BalanceUpdateRequest\<close> (models/balance.py:79-93): \<^verbatim>\<open>amount\<close> is \<^verbatim>\<open>gt=0\<close>.\<close>

record BalanceUpdateRequest =
  currency_type :: CurrencyType
  amount :: int
  transaction_type :: TransactionType
  reason :: "string option"

definition BalanceUpdateRequest_init ::
  "CurrencyType \<Rightarrow> int \<Rightarrow> TransactionType \<Rightarrow> string option \<Rightarrow> py_error + BalanceUpdateRequest" where
  "BalanceUpdateRequest_init c a ty why =
     (if a \<le> 0 then Inl ValidationError
      else if (case why of None \<Rightarrow> False | Some w \<Rightarrow> length w < 3 \<or> 200 < length w)
      then Inl ValidationError
      else Inr \<lparr>currency_type = c, amount = a, transaction_type = ty, reason = why\<rparr>)"

subsection \<open>get\_balance\<close>

text \<open>
  \<^verbatim>\<open>BalanceService.get_balance\<close> (balance\_service.py:24-62): \<^verbatim>\<open>None\<close> when no row
  matches, otherwise the response built from the first row. A storage fault and a failed
  model validation both leave the function as exceptions.
\<close>

definition get_balance :: "string \<Rightarrow> string \<Rightarrow> db \<Rightarrow> (py_error + BalanceResponse option) \<times> db" where
  "get_balance uid utype s =
     (case execute_query (sql_select_user uid utype) s of
        (Inl e, s1) \<Rightarrow> (Inl e, s1)
      | (Inr result, s1) \<Rightarrow>
          (case result of
             [] \<Rightarrow> (Inr None, s1)
           | user # _ \<Rightarrow>
               (case Balance_init (u_balance_wl user) (u_balance_dl user)
                                  (u_balance_bgl user) (u_balance_idr user) of
                  Inl e \<Rightarrow> (Inl e, s1)
                | Inr b \<Rightarrow>
                    (case BalanceResponse_init (u_id user) (u_user_type user) (u_growid user) b
                                               (u_updated_at user) (u_updated_by user) of
                       Inl e \<Rightarrow> (Inl e, s1)
                     | Inr r \<Rightarrow> (Inr (Some r), s1)))))"

subsection \<open>update\_balance\<close>

text \<open>
  Line 83-86: \<^verbatim>\<open>multiplier = 1 if transaction_type in [ADD, DONATION] else -1\<close>.
\<close>

definition multiplier :: "TransactionType \<Rightarrow> int" where
  "multiplier ty = (if ty = ADD \<or> ty = DONATION then 1 else - 1)"

text \<open>
  The \<^verbatim>\<open>try\<close> block, lines 98-138: insert the record as pending, apply the signed
  amount, set the record to success, read the balance back. \<open>tid\<close> is the generated
  \<^verbatim>\<open>transaction_id\<close> and \<open>now\<close> the clock reading (the two readings of lines 112 and
  122 are taken as one instant). The first exception ends the block.
  \<open>transaction_record\<close> is the tuple of values of the \<^verbatim>\<open>INSERT\<close> (lines 102-113), which
  goes in with the status pending.
\<close>

definition transaction_record ::
  "string \<Rightarrow> nat \<Rightarrow> string \<Rightarrow> string \<Rightarrow> BalanceUpdateRequest \<Rightarrow> TransactionStatus \<Rightarrow> txn_row" where
  "transaction_record tid now uid utype req st =
     \<lparr>t_id = tid, t_user_id = uid, t_user_type = utype,
      t_currency_type = currency_type req,
      t_transaction_type = transaction_type req,
      t_amount = amount req, t_created_by = ''fdygg'',
      t_description = reason req, t_status = st, t_timestamp = now\<rparr>"

definition update_balance_try ::
  "string \<Rightarrow> nat \<Rightarrow> string \<Rightarrow> string \<Rightarrow> BalanceUpdateRequest \<Rightarrow> db
     \<Rightarrow> (py_error + BalanceResponse option) \<times> db" where
  "update_balance_try tid now uid utype req s =
     (case execute_query
             (sql_insert_transaction (transaction_record tid now uid utype req PENDING)) s of
        (Inl e, s1) \<Rightarrow> (Inl e, s1)
      | (Inr _, s1) \<Rightarrow>
          (case execute_query
                  (sql_update_balance (currency_type req)
                     (multiplier (transaction_type req) * amount req) now ''fdygg'' uid utype) s1 of
             (Inl e, s2) \<Rightarrow> (Inl e, s2)
           | (Inr _, s2) \<Rightarrow>
               (case execute_query (sql_update_status SUCCESS tid) s2 of
                  (Inl e, s3) \<Rightarrow> (Inl e, s3)
                | (Inr _, s3) \<Rightarrow> get_balance uid utype s3)))"

text \<open>
  The block under \<^verbatim>\<open>async with\<close>, lines 72-148: the \<^verbatim>\<open>try\<close> block and its
  handler. \<^verbatim>\<open>except Exception\<close> (line 140) catches whatever the \<^verbatim>\<open>try\<close> block
  raised, sets the record to failed and returns \<^verbatim>\<open>None\<close>; an error of that last
  statement is not caught by anything and leaves the block.
\<close>

definition update_balance_block ::
  "string \<Rightarrow> nat \<Rightarrow> string \<Rightarrow> string \<Rightarrow> BalanceUpdateRequest \<Rightarrow> db
     \<Rightarrow> (py_error + BalanceResponse option) \<times> db" where
  "update_balance_block tid now uid utype req s =
     (case update_balance_try tid now uid utype req s of
        (Inr r, s') \<Rightarrow> (Inr r, s')
      | (Inl e, s') \<Rightarrow>
          (case execute_query (sql_update_status FAILED tid) s' of
             (Inl e', s'') \<Rightarrow> (Inl e', s'')
           | (Inr _, s'') \<Rightarrow> (Inr None, s'')))"

text \<open>
  The attributes of a \<^verbatim>\<open>DatabaseService\<close> object: the class attributes and methods
  that \<^verbatim>\<open>database_service.py\<close> (lines 11-167) declares, and \<^verbatim>\<open>startup_time\<close>, which
  \<^verbatim>\<open>__init__\<close> sets. The class defines no \<^verbatim>\<open>__getattr__\<close>, and nothing in the
  repository adds an attribute to it. Asking the object for any other name raises
  \<^verbatim>\<open>AttributeError\<close>. (What every Python object inherits from \<^verbatim>\<open>object\<close> is left
  out; all of those names begin and end with two underscores.)
\<close>

definition DatabaseService_attributes :: "string list" where
  "DatabaseService_attributes =
     [''_instance'', ''_conn'', ''_redis'', ''startup_time'', ''_init_sqlite'', ''_init_redis'',
      ''get_connection'', ''get_redis'', ''execute_query'', ''cache_get'', ''cache_set'',
      ''cache_delete'', ''cache_clear'', ''acquire_lock'']"

definition getattr_DatabaseService :: "string \<Rightarrow> py_error + unit" where
  "getattr_DatabaseService name =
     (if name \<in> set DatabaseService_attributes then Inr () else Inl AttributeError)"

text \<open>
  The whole function, lines 64-148. Its first statement, line 71, is
  \<^verbatim>\<open>async with self.db.transaction():\<close>. Python evaluates \<^verbatim>\<open>self.db.transaction\<close>
  first, and this attribute lookup on the \<^verbatim>\<open>DatabaseService\<close> is outside the \<^verbatim>\<open>try\<close>
  of line 98: when it raises, the error leaves the function and the block does not
  start. Only if the lookup gave a context manager would the block run.
\<close>

definition update_balance ::
  "string \<Rightarrow> nat \<Rightarrow> string \<Rightarrow> string \<Rightarrow> BalanceUpdateRequest \<Rightarrow> db
     \<Rightarrow> (py_error + BalanceResponse option) \<times> db" where
  "update_balance tid now uid utype req s =
     (case getattr_DatabaseService ''transaction'' of
        Inl e \<Rightarrow> (Inl e, s)
      | Inr _ \<Rightarrow> update_balance_block tid now uid utype req s)"

subsection \<open>get\_balance\_history\<close>













section \<open>ConversionService\<close>

subsection \<open>The pydantic models of a conversion\<close>

text \<open>
  \<^verbatim>\<open>ConversionRate\<close> (models/conversion.py:7-25): \<^verbatim>\<open>rate_rupiah\<close> is \<^verbatim>\<open>gt=0\<close>,
  \<^verbatim>\<open>min_amount\<close> is \<^verbatim>\<open>ge=1\<close>, \<^verbatim>\<open>max_amount\<close> is \<^verbatim>\<open>gt=0\<close>, and
  \<^verbatim>\<open>validate_currency\<close> rejects the Rupiah.
\<close>

record ConversionRate =
  cr_currency :: CurrencyType
  cr_rate_rupiah :: int
  cr_min_amount :: int
  cr_max_amount :: int
  cr_is_active :: bool
  cr_updated_at :: nat
  cr_updated_by :: string

definition ConversionRate_init ::
  "CurrencyType \<Rightarrow> int \<Rightarrow> int \<Rightarrow> int \<Rightarrow> bool \<Rightarrow> nat \<Rightarrow> string \<Rightarrow> py_error + ConversionRate" where
  "ConversionRate_init c rate lo hi active at by =
     (if c = RUPIAH \<or> rate \<le> 0 \<or> lo < 1 \<or> hi \<le> 0 then Inl ValidationError
      else Inr \<lparr>cr_currency = c, cr_rate_rupiah = rate, cr_min_amount = lo,
                cr_max_amount = hi, cr_is_active = active, cr_updated_at = at,
                cr_updated_by = by\<rparr>)"

text \<open>
  \<^verbatim>\<open>ConversionRequest\<close> (models/conversion.py:40-62). \<^verbatim>\<open>validate_user_type\<close> admits
  only \<^verbatim>\<open>"discord"\<close>; \<^verbatim>\<open>validate_to_currency\<close> rejects equal currencies, a
  conversion from the Rupiah and a conversion to anything but the Rupiah; \<^verbatim>\<open>amount\<close>
  is \<^verbatim>\<open>gt=0\<close>. Any failed check makes the constructor raise.
\<close>

record ConversionRequest =
  rq_user_id :: string
  rq_user_type :: string
  rq_from_currency :: CurrencyType
  rq_to_currency :: CurrencyType
  rq_amount :: int

definition ConversionRequest_init ::
  "string \<Rightarrow> string \<Rightarrow> CurrencyType \<Rightarrow> CurrencyType \<Rightarrow> int \<Rightarrow> py_error + ConversionRequest" where
  "ConversionRequest_init uid utype from to a =
     (if utype \<noteq> ''discord'' then Inl ValidationError
      else if from = to then Inl ValidationError
      else if from = RUPIAH then Inl ValidationError
      else if to \<noteq> RUPIAH then Inl ValidationError
      else if a \<le> 0 then Inl ValidationError
      else Inr \<lparr>rq_user_id = uid, rq_user_type = utype, rq_from_currency = from,
                rq_to_currency = to, rq_amount = a\<rparr>)"

text \<open>\<^verbatim>\<open>ConversionResponse\<close> (models/conversion.py:75-90); its fields carry no constraint.\<close>

record ConversionResponse =
  rs_conversion_id :: string
  rs_user_id :: string
  rs_from_currency :: CurrencyType
  rs_to_currency :: CurrencyType
  rs_amount :: int
  rs_converted_amount :: int
  rs_rate_used :: int
  rs_timestamp :: nat
  rs_status :: string

subsection \<open>Rates\<close>

text \<open>
  \<^verbatim>\<open>SELECT * FROM conversion_rates WHERE currency = ? AND is_active = 1
  ORDER BY updated_at DESC LIMIT 1\<close> (conversion\_service.py:33-38). \<open>newest\<close> is the
  \<^verbatim>\<open>ORDER BY ... LIMIT 1\<close>: the row with the greatest \<^verbatim>\<open>updated_at\<close>. SQLite leaves
  the order of rows with equal \<^verbatim>\<open>updated_at\<close> open; here the earlier row of the table
  comes first.
\<close>

fun newest :: "rate_row list \<Rightarrow> rate_row list" where
  "newest [] = []"
| "newest (r # rs) =
     (case newest rs of
        [] \<Rightarrow> [r]
      | b # _ \<Rightarrow> (if r_updated_at r < r_updated_at b then [b] else [r]))"

definition sql_select_active_rate :: "CurrencyType \<Rightarrow> db \<Rightarrow> rate_row list \<times> db" where
  "sql_select_active_rate c s =
     (newest (filter (\<lambda>r. r_currency r = c \<and> r_is_active r) (conversion_rates s)), s)"

text \<open>\<^verbatim>\<open>INSERT INTO conversion_rates (...) VALUES (...)\<close> (conversion\_service.py:77-82).\<close>

definition sql_insert_rate :: "rate_row \<Rightarrow> db \<Rightarrow> unit \<times> db" where
  "sql_insert_rate row s = ((), s\<lparr>conversion_rates := conversion_rates s @ [row]\<rparr>)"

text \<open>\<^verbatim>\<open>ConversionService.get_conversion_rate\<close> (conversion\_service.py:25-53).\<close>

definition get_conversion_rate ::
  "CurrencyType \<Rightarrow> db \<Rightarrow> (py_error + ConversionRate option) \<times> db" where
  "get_conversion_rate c s =
     (if c = RUPIAH then (Inl ValueError, s)
      else
        (case execute_query (sql_select_active_rate c) s of
           (Inl e, s1) \<Rightarrow> (Inl e, s1)
         | (Inr result, s1) \<Rightarrow>
             (case result of
                [] \<Rightarrow> (Inr None, s1)
              | rate # _ \<Rightarrow>
                  (case ConversionRate_init (r_currency rate) (r_rate_rupiah rate)
                          (r_min_amount rate) (r_max_amount rate) (r_is_active rate)
                          (r_updated_at rate) (r_updated_by rate) of
                     Inl e \<Rightarrow> (Inl e, s1)
                   | Inr r \<Rightarrow> (Inr (Some r), s1)))))"

text \<open>
  \<^verbatim>\<open>ConversionService.update_conversion_rate\<close> (conversion\_service.py:55-102). The
  \<^verbatim>\<open>try\<close> block (lines 65-98) raises \<^verbatim>\<open>ValueError\<close> on a bad argument, inserts the
  new row as active and reads the active rate back; the handler (lines 100-102) turns
  every exception into \<^verbatim>\<open>None\<close>. No statement of the function touches an existing row.
\<close>

definition update_conversion_rate_try ::
  "nat \<Rightarrow> CurrencyType \<Rightarrow> int \<Rightarrow> int \<Rightarrow> int \<Rightarrow> string \<Rightarrow> db
     \<Rightarrow> (py_error + ConversionRate option) \<times> db" where
  "update_conversion_rate_try now c rate lo hi by s =
     (if c = RUPIAH then (Inl ValueError, s)
      else if rate \<le> 0 then (Inl ValueError, s)
      else if lo < 1 then (Inl ValueError, s)
      else if hi \<le> lo then (Inl ValueError, s)
      else
        (case execute_query
                (sql_insert_rate
                   \<lparr>r_currency = c, r_rate_rupiah = rate, r_min_amount = lo,
                    r_max_amount = hi, r_is_active = True, r_updated_at = now,
                    r_updated_by = by\<rparr>) s of
           (Inl e, s1) \<Rightarrow> (Inl e, s1)
         | (Inr _, s1) \<Rightarrow> get_conversion_rate c s1))"

definition update_conversion_rate ::
  "nat \<Rightarrow> CurrencyType \<Rightarrow> int \<Rightarrow> int \<Rightarrow> int \<Rightarrow> string \<Rightarrow> db \<Rightarrow> ConversionRate option \<times> db" where
  "update_conversion_rate now c rate lo hi by s =
     (case update_conversion_rate_try now c rate lo hi by s of
        (Inl e, s') \<Rightarrow> (None, s')
      | (Inr r, s') \<Rightarrow> (r, s'))"

subsection \<open>convert\_currency\<close>

text \<open>
  \<^verbatim>\<open>str\<close> of an integer, for the messages built by f-strings.
\<close>

fun str_nat :: "nat \<Rightarrow> string" where
  "str_nat n =
     (if n < 10 then [''0123456789'' ! n]
      else str_nat (n div 10) @ [''0123456789'' ! (n mod 10)])"

definition str_int :: "int \<Rightarrow> string" where
  "str_int i = (if i < 0 then CHR ''-'' # str_nat (nat (- i)) else str_nat (nat i))"

text \<open>
  The values an attribute of a \<^verbatim>\<open>BalanceResponse\<close> can hold, and \<^verbatim>\<open>getattr\<close> on
  such an object. The object has the six fields of the model (models/balance.py:42-52)
  and, under \<^verbatim>\<open>balance\<close>, the nested \<^verbatim>\<open>Balance\<close>; the four balances are attributes of
  that nested object, not of the response. A name that is not an attribute raises
  \<^verbatim>\<open>AttributeError\<close>. (The methods inherited from pydantic's \<^verbatim>\<open>BaseModel\<close> are left
  out; none of them is called \<^verbatim>\<open>wl_balance\<close>, \<^verbatim>\<open>dl_balance\<close>, \<^verbatim>\<open>bgl_balance\<close> or
  \<^verbatim>\<open>idr_balance\<close>.)
\<close>

datatype py_value = PyNone | PyStr string | PyInt int | PyDatetime nat | PyBalance Balance

definition getattr_BalanceResponse :: "BalanceResponse \<Rightarrow> string \<Rightarrow> py_error + py_value" where
  "getattr_BalanceResponse r name =
     (if name = ''user_id'' then Inr (PyStr (br_user_id r))
      else if name = ''user_type'' then Inr (PyStr (br_user_type r))
      else if name = ''growid'' then
        Inr (case br_growid r of None \<Rightarrow> PyNone | Some g \<Rightarrow> PyStr g)
      else if name = ''balance'' then Inr (PyBalance (br_balance r))
      else if name = ''last_updated'' then Inr (PyDatetime (br_last_updated r))
      else if name = ''updated_by'' then Inr (PyStr (br_updated_by r))
      else Inl AttributeError)"

text \<open>\<^verbatim>\<open>value < n\<close> for an integer \<open>n\<close>: defined between integers, a \<^verbatim>\<open>TypeError\<close> otherwise.\<close>

definition py_less_int :: "py_value \<Rightarrow> int \<Rightarrow> py_error + bool" where
  "py_less_int v n = (case v of PyInt i \<Rightarrow> Inr (i < n) | _ \<Rightarrow> Inl TypeError)"

text \<open>\<^verbatim>\<open>INSERT INTO conversions (...) VALUES (...)\<close> (conversion\_service.py:207-213).\<close>

definition sql_insert_conversion :: "conv_row \<Rightarrow> db \<Rightarrow> unit \<times> db" where
  "sql_insert_conversion row s = ((), s\<lparr>conversions := conversions s @ [row]\<rparr>)"

text \<open>
  Lines 233-240 call \<^verbatim>\<open>update_balance(user_id=..., user_type=..., updates={...})\<close>.
  \<^verbatim>\<open>update_balance\<close> (balance\_service.py:64-69) has the parameters \<^verbatim>\<open>user_id\<close>,
  \<^verbatim>\<open>user_type\<close> and \<^verbatim>\<open>update_request\<close>: Python binds the arguments before it runs
  the body, finds no parameter \<^verbatim>\<open>updates\<close>, and raises \<^verbatim>\<open>TypeError\<close>. The body of
  \<^verbatim>\<open>update_balance\<close> does not run and the store is not touched.
\<close>

definition update_balance_updates ::
  "string \<Rightarrow> string \<Rightarrow> (CurrencyType \<times> int) list \<Rightarrow> db
     \<Rightarrow> (py_error + BalanceResponse option) \<times> db" where
  "update_balance_updates uid utype updates s = (Inl TypeError, s)"

text \<open>
  Lines 200-255 of \<^verbatim>\<open>convert_currency\<close>, reached once the balance check has
  passed: compute the converted amount, insert the conversion record (its status
  column is the literal \<^verbatim>\<open>"success"\<close>), then update the balances.
\<close>

definition convert_currency_apply ::
  "string \<Rightarrow> nat \<Rightarrow> ConversionRequest \<Rightarrow> ConversionRate \<Rightarrow> db
     \<Rightarrow> (py_error + bool \<times> string \<times> ConversionResponse option) \<times> db" where
  "convert_currency_apply cid now request rate s =
     (let converted_amount = rq_amount request * cr_rate_rupiah rate in
        (case execute_query
                (sql_insert_conversion
                   \<lparr>c_id = cid, c_user_id = rq_user_id request,
                    c_from_currency = rq_from_currency request,
                    c_to_currency = rq_to_currency request,
                    c_amount = rq_amount request,
                    c_converted_amount = converted_amount,
                    c_rate_used = cr_rate_rupiah rate,
                    c_timestamp = now, c_status = ''success'',
                    c_metadata = ''{}''\<rparr>) s of
           (Inl e, s1) \<Rightarrow> (Inl e, s1)
         | (Inr _, s1) \<Rightarrow>
             (case update_balance_updates (rq_user_id request) (rq_user_type request)
                     [(rq_from_currency request, - rq_amount request),
                      (rq_to_currency request, converted_amount)] s1 of
                (Inl e, s2) \<Rightarrow> (Inl e, s2)
              | (Inr None, s2) \<Rightarrow> (Inr (False, ''Failed to update balances'', None), s2)
              | (Inr (Some _), s2) \<Rightarrow>
                  (Inr (True, ''Conversion successful'',
                        Some \<lparr>rs_conversion_id = cid,
                              rs_user_id = rq_user_id request,
                              rs_from_currency = rq_from_currency request,
                              rs_to_currency = rq_to_currency request,
                              rs_amount = rq_amount request,
                              rs_converted_amount = converted_amount,
                              rs_rate_used = cr_rate_rupiah rate,
                              rs_timestamp = now,
                              rs_status = ''success''\<rparr>), s2))))"

text \<open>
  Lines 188-198: read the balance, take the attribute \<^verbatim>\<open><currency>_balance\<close> of the
  returned \<^verbatim>\<open>BalanceResponse\<close> with \<^verbatim>\<open>getattr\<close>, and compare it with the amount.
\<close>

definition convert_currency_check_balance ::
  "string \<Rightarrow> nat \<Rightarrow> ConversionRequest \<Rightarrow> ConversionRate \<Rightarrow> db
     \<Rightarrow> (py_error + bool \<times> string \<times> ConversionResponse option) \<times> db" where
  "convert_currency_check_balance cid now request rate s =
     (case get_balance (rq_user_id request) (rq_user_type request) s of
        (Inl e, s1) \<Rightarrow> (Inl e, s1)
      | (Inr None, s1) \<Rightarrow> (Inr (False, ''User balance not found'', None), s1)
      | (Inr (Some balance), s1) \<Rightarrow>
          (case getattr_BalanceResponse balance
                  (CurrencyType_value (rq_from_currency request) @ ''_balance'') of
             Inl e \<Rightarrow> (Inl e, s1)
           | Inr currency_balance \<Rightarrow>
               (case py_less_int currency_balance (rq_amount request) of
                  Inl e \<Rightarrow> (Inl e, s1)
                | Inr insufficient \<Rightarrow>
                    (if insufficient then
                       (Inr (False, ''Insufficient ''
                               @ CurrencyType_value (rq_from_currency request)
                               @ '' balance'', None), s1)
                     else convert_currency_apply cid now request rate s1))))"

text \<open>
  The \<^verbatim>\<open>try\<close> block of \<^verbatim>\<open>ConversionService.convert_currency\<close>
  (conversion\_service.py:165-255) from its start: the direction, the active rate and
  the bounds of the amount (lines 166-186), then the two parts above. \<open>cid\<close> is the
  generated \<^verbatim>\<open>conversion_id\<close>, \<open>now\<close> the clock reading. The result is the returned
  triple \<^verbatim>\<open>(ok, message, response)\<close>, or the exception that ends the block.
\<close>

definition convert_currency_try ::
  "string \<Rightarrow> nat \<Rightarrow> ConversionRequest \<Rightarrow> db
     \<Rightarrow> (py_error + bool \<times> string \<times> ConversionResponse option) \<times> db" where
  "convert_currency_try cid now request s =
     (if rq_from_currency request = RUPIAH then
        (Inr (False, ''Cannot convert from Rupiah'', None), s)
      else if rq_to_currency request \<noteq> RUPIAH then
        (Inr (False, ''Can only convert to Rupiah'', None), s)
      else
        (case get_conversion_rate (rq_from_currency request) s of
           (Inl e, s1) \<Rightarrow> (Inl e, s1)
         | (Inr None, s1) \<Rightarrow>
             (Inr (False, ''No conversion rate found for ''
                            @ CurrencyType_value (rq_from_currency request), None), s1)
         | (Inr (Some rate), s1) \<Rightarrow>
             (if \<not> cr_is_active rate then
                (Inr (False, ''Conversion for ''
                        @ CurrencyType_value (rq_from_currency request)
                        @ '' is currently inactive'', None), s1)
              else if rq_amount request < cr_min_amount rate then
                (Inr (False, ''Amount below minimum ('' @ str_int (cr_min_amount rate) @ '')'',
                      None), s1)
              else if cr_max_amount rate < rq_amount request then
                (Inr (False, ''Amount above maximum ('' @ str_int (cr_max_amount rate) @ '')'',
                      None), s1)
              else convert_currency_check_balance cid now request rate s1)))"

text \<open>
  The whole function (lines 160-259): \<^verbatim>\<open>except Exception\<close> (line 257) turns every
  exception of the block into \<^verbatim>\<open>(False, "Conversion failed", None)\<close>.
\<close>

definition convert_currency ::
  "string \<Rightarrow> nat \<Rightarrow> ConversionRequest \<Rightarrow> db \<Rightarrow> (bool \<times> string \<times> ConversionResponse option) \<times> db" where
  "convert_currency cid now request s =
     (case convert_currency_try cid now request s of
        (Inl e, s') \<Rightarrow> ((False, ''Conversion failed'', None), s')
      | (Inr r, s') \<Rightarrow> (r, s'))"

text \<open>
  A conversion as a caller makes it: \<^verbatim>\<open>convert_currency\<close> takes a
  \<^verbatim>\<open>ConversionRequest\<close>, so the caller's values go through the constructor of that
  model first, and Python evaluates this argument before it enters the function. A
  failed validation leaves the call with the constructor's exception and the service is
  never entered.
\<close>

definition convert ::
  "string \<Rightarrow> nat \<Rightarrow> string \<Rightarrow> string \<Rightarrow> CurrencyType \<Rightarrow> CurrencyType \<Rightarrow> int \<Rightarrow> db
     \<Rightarrow> (py_error + bool \<times> string \<times> ConversionResponse option) \<times> db" where
  "convert cid now uid utype from to a s =
     (case ConversionRequest_init uid utype from to a of
        Inl e \<Rightarrow> (Inl e, s)
      | Inr request \<Rightarrow>
          (case convert_currency cid now request s of (r, s') \<Rightarrow> (Inr r, s')))"

section \<open>Stores and requests of the scenarios\<close>


definition player :: "int \<Rightarrow> user_row" where
  "player wl =
     \<lparr>u_id = ''usr_123456'', u_user_type = ''discord'', u_growid = Some ''PLAYER123'',
      u_balance_wl = wl, u_balance_dl = 0, u_balance_bgl = 0, u_balance_idr = 0,
      u_updated_at = 0, u_updated_by = ''fdygg''\<rparr>"

definition wl_rate_row :: "int \<Rightarrow> nat \<Rightarrow> rate_row" where
  "wl_rate_row rate at =
     \<lparr>r_currency = WL, r_rate_rupiah = rate, r_min_amount = 1, r_max_amount = 10000,
      r_is_active = True, r_updated_at = at, r_updated_by = ''fdygg''\<rparr>"

definition store :: "int \<Rightarrow> rate_row list \<Rightarrow> bool list \<Rightarrow> db" where
  "store wl rates fs =
     \<lparr>users = [player wl], balance_transactions = [], conversion_rates = rates,
      conversions = [], faults = fs, locks = []\<rparr>"

definition request_wl :: "int \<Rightarrow> TransactionType \<Rightarrow> BalanceUpdateRequest" where
  "request_wl a ty = \<lparr>currency_type = WL, amount = a, transaction_type = ty, reason = None\<rparr>"

definition convert_wl :: "int \<Rightarrow> ConversionRequest" where
  "convert_wl a =
     \<lparr>rq_user_id = ''usr_123456'', rq_user_type = ''discord'', rq_from_currency = WL,
      rq_to_currency = RUPIAH, rq_amount = a\<rparr>"

section \<open>The states that the services can reach\<close>



section \<open>Properties\<close>

subsection \<open>Unfolding the services on a concrete store\<close>

lemmas balance_run =
  update_balance_def getattr_DatabaseService_def DatabaseService_attributes_def
  execute_query_def sql_select_user_def get_balance_def Balance_init_def
  BalanceResponse_init_def falsy_def multiplier_def store_def player_def request_wl_def

lemmas conversion_run =
  convert_currency_def convert_currency_try_def convert_currency_check_balance_def
  convert_currency_apply_def get_conversion_rate_def sql_select_active_rate_def
  ConversionRate_init_def getattr_BalanceResponse_def py_less_int_def
  sql_insert_conversion_def update_balance_updates_def get_balance_def execute_query_def
  sql_select_user_def Balance_init_def BalanceResponse_init_def falsy_def
  store_def player_def wl_rate_row_def convert_wl_def

subsection \<open>Balance updates\<close>


text \<open>
  C1. An account holds 100 World Locks and \<^verbatim>\<open>update_balance\<close> is asked to subtract
  150. The call raises \<^verbatim>\<open>AttributeError\<close> at line 71. The balance is still 100, but
  the caller gets a raw exception and no error that names the funds, and no ledger
  entry has been written, so none is marked failed.
\<close>

theorem update_balance_overdraft_raises:
  "update_balance ''txn_1'' 1 ''usr_123456'' ''discord'' (request_wl 150 SUBTRACT)
     (store 100 [] []) = (Inl AttributeError, store 100 [] [])"
  by (simp add: balance_run)

text \<open>
  C4. The multiplier of lines 83-86 is 1 for \<^verbatim>\<open>ADD\<close> and \<^verbatim>\<open>DONATION\<close> and -1 for
  every other type, \<^verbatim>\<open>REFUND\<close> included. No delta of either sign reaches a balance:
  a refund of 10 World Locks and an addition of 10 World Locks both raise
  \<^verbatim>\<open>AttributeError\<close> at line 71 and leave the account with its 100.
\<close>

theorem refund_subtracts:
  "map multiplier [ADD, DONATION, REFUND, SUBTRACT, PURCHASE, ADJUSTMENT, CONVERT]
     = [1, 1, - 1, - 1, - 1, - 1, - 1]
   \<and> update_balance ''txn_1'' 1 ''usr_123456'' ''discord'' (request_wl 10 REFUND)
        (store 100 [] []) = (Inl AttributeError, store 100 [] [])
   \<and> update_balance ''txn_2'' 2 ''usr_123456'' ''discord'' (request_wl 10 ADD)
        (store 100 [] []) = (Inl AttributeError, store 100 [] [])"
  by (simp add: balance_run)

text \<open>
  C10. \<^verbatim>\<open>update_balance\<close> for an account that has no row in \<^verbatim>\<open>users\<close>: the call
  raises \<^verbatim>\<open>AttributeError\<close> at line 71. It inserts no row into
  \<^verbatim>\<open>balance_transactions\<close>, so no record with the status success exists afterwards,
  and it does not return \<^verbatim>\<open>None\<close>.
\<close>

theorem update_balance_unknown_account_raises:
  "update_balance ''txn_1'' 1 ''nobody'' ''discord'' (request_wl 5 ADD) (store 100 [] [])
     = (Inl AttributeError, store 100 [] [])"
  by (simp add: balance_run)

subsection \<open>Conversions\<close>

text \<open>
  C5. The scenario of the specification: the active World Lock rate is 5000 with the
  bounds 1 and 10000, the account holds 1000 World Locks, and 200 of them are to be
  converted. The rate and the bounds pass, the balance is read, and line 196 asks the
  \<^verbatim>\<open>BalanceResponse\<close> for an attribute \<^verbatim>\<open>wl_balance\<close> that only the nested
  \<^verbatim>\<open>Balance\<close> has. The \<^verbatim>\<open>AttributeError\<close> is caught at line 257: the call returns
  \<^verbatim>\<open>(False, "Conversion failed", None)\<close> and the store is exactly as before, with 1000
  World Locks and no Rupiah.
\<close>

theorem conversion_scenario_fails:
  "convert_currency ''conv_1'' 1 (convert_wl 200) (store 1000 [wl_rate_row 5000 0] []) =
     ((False, ''Conversion failed'', None), store 1000 [wl_rate_row 5000 0] [])"
  by (simp add: conversion_run)

text \<open>
  C9. A conversion whose account is not a discord account, whose source currency is the
  Rupiah, or whose amount is not positive is refused by the constructor of
  \<^verbatim>\<open>ConversionRequest\<close> with a validation error. The service is not entered: the store,
  its schedule of faults included, is the one the caller had, so no statement ran, no
  record or entry was written and no lock was asked for.
\<close>

theorem convert_rejects_before_service:
  assumes "utype \<noteq> ''discord'' \<or> from = RUPIAH \<or> a \<le> 0"
  shows "ConversionRequest_init uid utype from to a = Inl ValidationError
       \<and> convert cid now uid utype from to a s = (Inl ValidationError, s)"
  using assms by (auto simp: convert_def ConversionRequest_init_def)

theorem convert_rejects_before_service_witness:
  "(0::int) \<le> 0
   \<and> ConversionRequest_init ''usr_123456'' ''discord'' WL RUPIAH 0 = Inl ValidationError
   \<and> convert ''conv_1'' 1 ''usr_123456'' ''discord'' WL RUPIAH 0
         (store 1000 [wl_rate_row 5000 0] [])
       = (Inl ValidationError, store 1000 [wl_rate_row 5000 0] [])"
  using convert_rejects_before_service
          [of "''discord''" WL 0 "''usr_123456''" RUPIAH "''conv_1''" 1
              "store 1000 [wl_rate_row 5000 0] []"]
  by simp

subsection \<open>Rates are only ever appended\<close>

lemma get_conversion_rate_rates:
  "conversion_rates (snd (get_conversion_rate c s)) = conversion_rates s"
  by (simp add: get_conversion_rate_def execute_query_def sql_select_active_rate_def
      split: list.splits sum.splits)

text \<open>
  C6, as the code has it. \<^verbatim>\<open>update_conversion_rate\<close> with a currency other than the
  Rupiah, a positive rate, a minimum of at least 1 and a maximum above the minimum
  appends one row, active, unless the \<^verbatim>\<open>INSERT\<close> itself raises; in every other case
  the table is unchanged. The rows that were there stay as they were, their
  \<^verbatim>\<open>is_active\<close> flag included: no previous row is deactivated.
\<close>

theorem update_conversion_rate_appends:
  "conversion_rates (snd (update_conversion_rate now c rate lo hi by s)) =
     (if c \<noteq> RUPIAH \<and> 0 < rate \<and> 1 \<le> lo \<and> lo < hi \<and> take 1 (faults s) \<noteq> [True]
      then conversion_rates s @
             [\<lparr>r_currency = c, r_rate_rupiah = rate, r_min_amount = lo, r_max_amount = hi,
               r_is_active = True, r_updated_at = now, r_updated_by = by\<rparr>]
      else conversion_rates s)"
  by (simp add: update_conversion_rate_def update_conversion_rate_try_def execute_query_def
      sql_insert_rate_def get_conversion_rate_rates case_prod_beta
      split: list.splits sum.splits)

theorem update_conversion_rate_appends_witness:
  "conversion_rates (snd (update_conversion_rate 1 WL 5000 1 10000 ''fdygg''
      (store 0 [wl_rate_row 4000 0] []))) = [wl_rate_row 4000 0, wl_rate_row 5000 1]"
  using update_conversion_rate_appends
          [of 1 WL 5000 1 10000 "''fdygg''" "store 0 [wl_rate_row 4000 0] []"]
  by (simp add: store_def wl_rate_row_def)

text \<open>
  C6, as the claim states it, fails: after two updates of the World Lock rate both rows
  are active.
\<close>

theorem two_active_rates:
  "filter (\<lambda>r. r_currency r = WL \<and> r_is_active r)
     (conversion_rates (snd (update_conversion_rate 2 WL 6000 1 10000 ''fdygg''
        (snd (update_conversion_rate 1 WL 5000 1 10000 ''fdygg'' (store 0 [] []))))))
   = [wl_rate_row 5000 1, wl_rate_row 6000 2]"
  by (simp add: update_conversion_rate_def update_conversion_rate_try_def execute_query_def
      sql_insert_rate_def get_conversion_rate_def sql_select_active_rate_def ConversionRate_init_def
      store_def wl_rate_row_def)

subsection \<open>No service writes to the ledger\<close>

text \<open>
  The attribute that line 196 asks of the \<^verbatim>\<open>BalanceResponse\<close> does not exist for any
  currency. So \<^verbatim>\<open>convert_currency\<close> never reaches line 200: it writes to no table and
  its flag is false, whatever the request, the store and the schedule of faults.
\<close>

lemma getattr_balance_name:
  "getattr_BalanceResponse r (CurrencyType_value c @ ''_balance'') = Inl AttributeError"
  by (cases c) (simp_all add: getattr_BalanceResponse_def)




lemma check_balance_fails:
  "fst (convert_currency_check_balance cid now request rate s) = Inr (ok, msg, resp) \<Longrightarrow> \<not> ok"
  by (auto simp add: convert_currency_check_balance_def case_prod_beta
      getattr_balance_name split: sum.splits option.splits)


lemma convert_currency_never_succeeds:
  "fst (fst (convert_currency cid now request s)) = False"
  by (auto simp add: convert_currency_def convert_currency_try_def case_prod_beta
      dest: check_balance_fails split: sum.splits option.splits)







subsection \<open>The status of a ledger entry\<close>



subsection \<open>What the operations hand to their caller\<close>







end
